theory Spec2Isabelle
  imports Main "HOL-Library.Sublist"
begin

section \<open>Go values used by the sources\<close>

text \<open>
  Go's \<^verbatim>\<open>int\<close> fields (\<^verbatim>\<open>Pid\<close>, \<^verbatim>\<open>ExitCode\<close>, \<^verbatim>\<open>Kind\<close>) are only stored, compared and
  printed by the functions embedded here, never computed with, so they are modelled as
  mathematical integers. A \<^verbatim>\<open>time.Time\<close> is an instant counted in nanoseconds from Go's
  zero time; a \<^verbatim>\<open>time.Duration\<close> is a signed 64-bit count of nanoseconds.
\<close>

type_synonym Time = int
type_synonym Duration = int

definition maxDuration :: Duration where
  "maxDuration = 2 ^ 63 - 1"

definition minDuration :: Duration where
  "minDuration = - (2 ^ 63)"

text \<open>\<^verbatim>\<open>t.Sub(u)\<close>: the duration \<^verbatim>\<open>t - u\<close>, saturated at the ends of the range of a Duration.\<close>

definition Time_Sub :: "Time \<Rightarrow> Time \<Rightarrow> Duration" where
  "Time_Sub t u =
     (if t - u > maxDuration then maxDuration
      else if t - u < minDuration then minDuration
      else t - u)"

text \<open>The verb \<^verbatim>\<open>%d\<close> of \<^verbatim>\<open>fmt.Sprintf\<close>: decimal digits, with a minus sign for a negative number.\<close>

definition digitChar :: "nat \<Rightarrow> char" where
  "digitChar n = ''0123456789'' ! (n mod 10)"

function natToDec :: "nat \<Rightarrow> string" where
  "natToDec n = (if n < 10 then [digitChar n] else natToDec (n div 10) @ [digitChar n])"
  by pat_completeness auto
termination
  by (relation "measure id") auto

declare natToDec.simps [simp del]

definition fmt_d :: "int \<Rightarrow> string" where
  "fmt_d i = (if i < 0 then CHR ''-'' # natToDec (nat (- i)) else natToDec (nat i))"

section \<open>api/types.go: State, ChangeType, Change\<close>

text \<open>
  \<^verbatim>\<open>type State struct { Running bool; Pid int; ExitCode int; StartedAt time.Time; Ghost bool }\<close>
\<close>

record api_State =
  Running :: bool
  Pid :: int
  ExitCode :: int
  StartedAt :: Time
  Ghost :: bool

text \<open>\<^verbatim>\<open>type ChangeType int\<close> with \<^verbatim>\<open>const ( ChangeModify = iota; ChangeAdd; ChangeDelete )\<close>.\<close>

type_synonym ChangeType = int

definition ChangeModify :: ChangeType where
  "ChangeModify = 0"

definition ChangeAdd :: ChangeType where
  "ChangeAdd = 1"

definition ChangeDelete :: ChangeType where
  "ChangeDelete = 2"

record Change =
  Path :: string
  Kind :: ChangeType

text \<open>
  \<^verbatim>\<open>Change.String\<close>: the \<^verbatim>\<open>switch\<close> has no default branch, so for any other kind the
  variable \<^verbatim>\<open>kind\<close> keeps its zero value, the empty string.
\<close>

definition Change_String :: "Change \<Rightarrow> string" where
  "Change_String change =
     (let kind =
        (if Kind change = ChangeModify then ''C''
         else if Kind change = ChangeAdd then ''A''
         else if Kind change = ChangeDelete then ''D''
         else '''')
      in kind @ '' '' @ Path change)"

section \<open>state.go: the container state\<close>

text \<open>
  \<^verbatim>\<open>type State struct { sync.Mutex; api.State }\<close>: the fields of \<^verbatim>\<open>api.State\<close> together
  with a mutex, which is modelled by its locked flag (the zero mutex is unlocked).
\<close>

record State = api_State +
  Mutex :: bool

definition zeroState :: State where
  "zeroState =
     \<lparr>Running = False, Pid = 0, ExitCode = 0, StartedAt = 0, Ghost = False, Mutex = False\<rparr>"

text \<open>
  \<^verbatim>\<open>State.String\<close>. The reading of the clock (\<^verbatim>\<open>time.Now()\<close>) is the argument \<open>now\<close>;
  \<^verbatim>\<open>utils.HumanDuration\<close> belongs to a package whose source is not at hand and is the
  argument \<open>HumanDuration\<close>.
\<close>

definition State_String :: "(Duration \<Rightarrow> string) \<Rightarrow> Time \<Rightarrow> State \<Rightarrow> string" where
  "State_String HumanDuration now s =
     (if Running s then
        (if Ghost s then ''Ghost''
         else ''Up '' @ HumanDuration (Time_Sub now (StartedAt s)))
      else ''Exit '' @ fmt_d (ExitCode s))"

text \<open>\<^verbatim>\<open>setRunning\<close>; \<open>now\<close> is the reading of the clock taken by the call.\<close>

definition setRunning :: "Time \<Rightarrow> State \<Rightarrow> int \<Rightarrow> State" where
  "setRunning now s pid =
     s\<lparr>Running := True, Ghost := False, ExitCode := 0, Pid := pid, StartedAt := now\<rparr>"

definition setStopped :: "State \<Rightarrow> int \<Rightarrow> State" where
  "setStopped s exitCode = s\<lparr>Running := False, Pid := 0, ExitCode := exitCode\<rparr>"

text \<open>A sequence of calls on one state, each \<^verbatim>\<open>setRunning\<close> with the clock reading it takes.\<close>

datatype call = SetRunning Time int | SetStopped int

fun apply_call :: "State \<Rightarrow> call \<Rightarrow> State" where
  "apply_call s (SetRunning now pid) = setRunning now s pid"
| "apply_call s (SetStopped exitCode) = setStopped s exitCode"

definition run_calls :: "call list \<Rightarrow> State \<Rightarrow> State" where
  "run_calls cs s = foldl apply_call s cs"

text \<open>The invariant the specification states for the container state.\<close>

definition state_inv :: "State \<Rightarrow> bool" where
  "state_inv s = ((Running s \<longrightarrow> Pid s > 0) \<and> (\<not> Running s \<longrightarrow> Pid s = 0))"

fun positive_pid :: "call \<Rightarrow> bool" where
  "positive_pid (SetRunning now pid) = (pid > 0)"
| "positive_pid (SetStopped exitCode) = True"

section \<open>The request layer: boolean parameters, content types, CORS\<close>

text \<open>The error taxonomy of the request layer.\<close>

datatype error = ParameterError string | NotFoundError string | InternalError string

text \<open>
  Modelled from the spec: \<^verbatim>\<open>getBoolParam\<close>, which \<^verbatim>\<open>api_test.go\<close> calls and whose
  source file is not at hand. The specification gives its grammar: \<^verbatim>\<open>"1"\<close>, \<^verbatim>\<open>"true"\<close>,
  \<^verbatim>\<open>"True"\<close> are true; \<^verbatim>\<open>""\<close>, \<^verbatim>\<open>"0"\<close>, \<^verbatim>\<open>"false"\<close> are false; any other value is a
  parse error, returned with \<^verbatim>\<open>false\<close>, whose message names the offending value. The pair
  is Go's \<^verbatim>\<open>(bool, error)\<close>, with \<open>None\<close> for the \<^verbatim>\<open>nil\<close> error.
\<close>

definition getBoolParam :: "string \<Rightarrow> bool \<times> error option" where
  "getBoolParam v =
     (if v = ''1'' \<or> v = ''true'' \<or> v = ''True'' then (True, None)
      else if v = '''' \<or> v = ''0'' \<or> v = ''false'' then (False, None)
      else (False, Some (ParameterError v)))"

text \<open>
  \<^verbatim>\<open>TestGetBoolParam\<close> of \<^verbatim>\<open>api_test.go\<close>: the test passes when none of its seven checks
  calls \<^verbatim>\<open>t.Fatalf\<close>.
\<close>

definition TestGetBoolParam :: bool where
  "TestGetBoolParam =
     (let fails_true = (\<lambda>(ret, err). err \<noteq> None \<or> \<not> ret);
          fails_false = (\<lambda>(ret, err). err \<noteq> None \<or> ret);
          fails_error = (\<lambda>(ret, err). err = None \<or> ret)
      in \<not> fails_true (getBoolParam ''true'') \<and>
         \<not> fails_true (getBoolParam ''True'') \<and>
         \<not> fails_true (getBoolParam ''1'') \<and>
         \<not> fails_false (getBoolParam '''') \<and>
         \<not> fails_false (getBoolParam ''false'') \<and>
         \<not> fails_false (getBoolParam ''0'') \<and>
         \<not> fails_error (getBoolParam ''faux''))"

text \<open>
  Modelled from the spec: \<^verbatim>\<open>matchesContentType\<close>, which \<^verbatim>\<open>api_test.go\<close> calls and whose
  source file is not at hand. The specification's words: the \<^verbatim>\<open>Content-Type\<close> matches the
  expected type up to an optional \<^verbatim>\<open>; charset=...\<close> suffix.
\<close>

definition matchesContentType :: "string \<Rightarrow> string \<Rightarrow> bool" where
  "matchesContentType contentType expectedType =
     (contentType = expectedType \<or> prefix (expectedType @ ''; charset='') contentType)"

text \<open>\<^verbatim>\<open>TestJsonContentType\<close> of \<^verbatim>\<open>api_test.go\<close>: it passes when no check calls \<^verbatim>\<open>t.Fail\<close>.\<close>

definition TestJsonContentType :: bool where
  "TestJsonContentType =
     (matchesContentType ''application/json'' ''application/json'' \<and>
      matchesContentType ''application/json; charset=utf-8'' ''application/json'' \<and>
      \<not> matchesContentType ''dockerapplication/json'' ''application/json'')"

text \<open>
  A request as the router sees it, and the response it writes: the status code, the
  header fields and the body.
\<close>

record Request =
  Method :: string
  URLPath :: string

record Response =
  StatusCode :: nat
  Header :: "string \<rightharpoonup> string"
  Body :: string

text \<open>A handler reads the request and the server's state and gives a response and the new state.\<close>

type_synonym 'srv handler = "'srv \<Rightarrow> Request \<Rightarrow> Response \<times> 'srv"

text \<open>
  Modelled from the spec: the router made by \<^verbatim>\<open>createRouter\<close>, whose source file is not at
  hand (\<^verbatim>\<open>api_test.go\<close> drives it through \<^verbatim>\<open>ServeHTTP\<close>). The specification's words:
  when CORS is enabled every response gets the three \<^verbatim>\<open>Access-Control-Allow-*\<close> headers, and
  an \<^verbatim>\<open>OPTIONS\<close> request to any route short-circuits with 200 and no body. The table of the
  routes is the argument \<open>routes\<close>, from the method and the path to the handler; a request
  that no route matches is answered 404.
\<close>

definition writeCorsHeaders :: "Response \<Rightarrow> Response" where
  "writeCorsHeaders w =
     w\<lparr>Header := (Header w)
         (''Access-Control-Allow-Origin'' \<mapsto> ''*'',
          ''Access-Control-Allow-Headers'' \<mapsto> ''Origin, X-Requested-With, Content-Type, Accept'',
          ''Access-Control-Allow-Methods'' \<mapsto> ''GET, POST, DELETE, PUT, OPTIONS'')\<rparr>"

definition ServeHTTP ::
  "bool \<Rightarrow> (string \<Rightarrow> string \<Rightarrow> 'srv handler option) \<Rightarrow> 'srv \<Rightarrow> Request \<Rightarrow> Response \<times> 'srv"
where
  "ServeHTTP enableCors routes srv r =
     (let cors = (\<lambda>w. if enableCors then writeCorsHeaders w else w) in
      if Method r = ''OPTIONS'' then
        (cors \<lparr>StatusCode = 200, Header = Map.empty, Body = ''''\<rparr>, srv)
      else
        (case routes (Method r) (URLPath r) of
           None \<Rightarrow> (cors \<lparr>StatusCode = 404, Header = Map.empty, Body = ''''\<rparr>, srv)
         | Some h \<Rightarrow> (let (w, srv') = h srv r in (cors w, srv'))))"

section \<open>The event bus\<close>

text \<open>
  \<^verbatim>\<open>type JSONError struct { Code int; Message string }\<close> and \<^verbatim>\<open>type JSONMessage struct\<close> of
  \<^verbatim>\<open>api/types.go\<close>: the events of the server are values of \<^verbatim>\<open>JSONMessage\<close>, with the action in
  \<^verbatim>\<open>Status\<close>, the container in \<^verbatim>\<open>ID\<close> and the timestamp, in seconds, in \<^verbatim>\<open>Time\<close>.
\<close>

record JSONError =
  Code :: int
  Message :: string

record JSONMessage =
  Status :: string
  Progress :: string
  ErrorMessage :: string
  ID :: string
  Time :: int
  Error :: "JSONError option"

text \<open>
  The part of \<^verbatim>\<open>Server\<close> that \<^verbatim>\<open>TestGetEvents\<close> builds: the log of the events and the
  listeners, each with its channel. A channel is the list of the events sent and not yet
  received, oldest first.
\<close>

record Server =
  events :: "JSONMessage list"
  listeners :: "string \<rightharpoonup> JSONMessage list"

text \<open>
  Modelled from the spec: \<^verbatim>\<open>LogEvent\<close>, the listener registry and the events stream
  (\<^verbatim>\<open>getEvents\<close>), whose source file is not at hand (\<^verbatim>\<open>api_test.go\<close> calls them). The
  specification's words: \<^verbatim>\<open>logEvent\<close> appends the event, stamped with the current time, to
  the log, which is bounded (the oldest entries are evicted once the capacity is reached),
  then offers it to the channel of every registered listener without blocking, and the
  event is dropped for a listener whose channel is full. The capacity \<open>logCap\<close> of the log,
  the capacity \<open>chanCap\<close> of a channel and the reading \<open>now\<close> of the clock are arguments.
\<close>

definition offer :: "nat \<Rightarrow> JSONMessage \<Rightarrow> JSONMessage list \<Rightarrow> JSONMessage list" where
  "offer chanCap jm c = (if length c < chanCap then c @ [jm] else c)"

definition newEvent :: "int \<Rightarrow> string \<Rightarrow> string \<Rightarrow> JSONMessage" where
  "newEvent now action ident =
     \<lparr>Status = action, Progress = '''', ErrorMessage = '''', ID = ident, Time = now, Error = None\<rparr>"

definition LogEvent :: "nat \<Rightarrow> nat \<Rightarrow> int \<Rightarrow> string \<Rightarrow> string \<Rightarrow> Server \<Rightarrow> Server" where
  "LogEvent logCap chanCap now action ident srv =
     (let jm = newEvent now action ident in
      srv\<lparr>events := drop (Suc (length (events srv)) - logCap) (events srv @ [jm]),
          listeners := (\<lambda>l. map_option (offer chanCap jm) (listeners srv l))\<rparr>)"

definition subscribe :: "string \<Rightarrow> Server \<Rightarrow> Server" where
  "subscribe l srv = srv\<lparr>listeners := (listeners srv)(l \<mapsto> [])\<rparr>"

definition unsubscribe :: "string \<Rightarrow> Server \<Rightarrow> Server" where
  "unsubscribe l srv = srv\<lparr>listeners := (listeners srv)(l := None)\<rparr>"

text \<open>
  Modelled from the spec: \<^verbatim>\<open>streamSince\<close>. It first replays the buffered events with
  \<^verbatim>\<open>timestamp >= since\<close> in arrival order and subscribes, in one step under the lock of the
  log; from then on it forwards the events of its channel, one at a time, to its output,
  while other tasks log events. The pair is the output written so far and the server.
\<close>

definition replay :: "int \<Rightarrow> Server \<Rightarrow> JSONMessage list" where
  "replay since srv = filter (\<lambda>jm. since \<le> Time jm) (events srv)"

definition streamStart :: "int \<Rightarrow> string \<Rightarrow> Server \<Rightarrow> JSONMessage list \<times> Server" where
  "streamStart since l srv = (replay since srv, subscribe l srv)"








text \<open>
  \<^verbatim>\<open>TestGetEvents\<close> of \<^verbatim>\<open>api_test.go\<close>: two events are logged on a server with no
  listeners, at the clock readings \<open>now1\<close> and \<open>now2\<close>, and the stream is opened with
  \<^verbatim>\<open>since=1\<close>. The test reads at most two events from the body, stops at the end of the
  body, and fails when the event read differs from the event of the log at the same index.
\<close>

definition TestGetEvents :: "int \<Rightarrow> int \<Rightarrow> bool" where
  "TestGetEvents now1 now2 =
     (let srv0 = \<lparr>events = [], listeners = Map.empty\<rparr>;
          srv1 = LogEvent 64 0 now1 ''fakeaction'' ''fakeid'' srv0;
          srv2 = LogEvent 64 0 now2 ''fakeaction2'' ''fakeid'' srv1;
          body = fst (streamStart 1 ''client'' srv2)
      in prefix (take 2 body) (events srv2))"

section \<open>Properties of the container state\<close>

text \<open>
  The digits written by \<open>natToDec\<close> are the decimal notation of the number: read back in
  base ten, they give it again.
\<close>

lemma digit_cases:
  fixes m :: nat
  assumes "m < 10"
  shows "m = 0 \<or> m = 1 \<or> m = 2 \<or> m = 3 \<or> m = 4 \<or> m = 5 \<or> m = 6 \<or> m = 7 \<or> m = 8 \<or> m = 9"
  using assms by arith

lemma digitChar_value: "of_char (digitChar n) = 48 + n mod 10"
proof -
  have "n mod 10 < 10" by simp
  from digit_cases [OF this] show ?thesis
    unfolding digitChar_def by (elim disjE) simp_all
qed

lemma natToDec_value: "foldl (\<lambda>a c. 10 * a + (of_char c - 48)) 0 (natToDec n) = n"
proof (induction n rule: natToDec.induct)
  case (1 n)
  show ?case
  proof (cases "n < 10")
    case True
    then show ?thesis
      by (subst natToDec.simps) (simp add: digitChar_value)
  next
    case False
    with 1 show ?thesis
      by (subst natToDec.simps) (simp add: digitChar_value)
  qed
qed

lemma state_inv_step: "positive_pid c \<Longrightarrow> state_inv s \<Longrightarrow> state_inv (apply_call s c)"
  by (cases c) (simp_all add: state_inv_def setRunning_def setStopped_def)

lemma state_inv_foldl:
  "\<forall>c \<in> set cs. positive_pid c \<Longrightarrow> state_inv s \<Longrightarrow> state_inv (foldl apply_call s cs)"
  by (induction cs arbitrary: s) (simp_all add: state_inv_step)

text \<open>
  C1, as stated, fails: \<^verbatim>\<open>setRunning\<close> stores whatever pid it is given, so after
  \<^verbatim>\<open>setRunning(0)\<close> on the zero state the container is running with a pid that is not
  positive.
\<close>

theorem State_invariant_counterexample:
  "Running (run_calls [SetRunning 1 0] zeroState) \<and>
   \<not> Pid (run_calls [SetRunning 1 0] zeroState) > 0"
  by (simp add: run_calls_def setRunning_def zeroState_def)

text \<open>
  C1, amended: for every state reached from the zero state by calls of \<^verbatim>\<open>setRunning(pid)\<close>
  with \<^verbatim>\<open>pid > 0\<close> and of \<^verbatim>\<open>setStopped(exitCode)\<close>, a running state has a positive pid and a
  state that is not running has pid 0.
\<close>

theorem State_invariant_positive_pid:
  "\<forall>c \<in> set cs. positive_pid c \<Longrightarrow>
     (Running (run_calls cs zeroState) \<longrightarrow> Pid (run_calls cs zeroState) > 0) \<and>
     (\<not> Running (run_calls cs zeroState) \<longrightarrow> Pid (run_calls cs zeroState) = 0)"
proof -
  assume pos: "\<forall>c \<in> set cs. positive_pid c"
  have "state_inv zeroState"
    by (simp add: state_inv_def zeroState_def)
  with pos have "state_inv (run_calls cs zeroState)"
    unfolding run_calls_def by (rule state_inv_foldl)
  then show ?thesis
    by (simp add: state_inv_def)
qed

theorem State_invariant_positive_pid_witness:
  "positive_pid (SetRunning 7 42) \<and> positive_pid (SetStopped 137) \<and>
   positive_pid (SetRunning 9 43) \<and>
   Running (run_calls [SetRunning 7 42, SetStopped 137, SetRunning 9 43] zeroState) \<and>
   Pid (run_calls [SetRunning 7 42, SetStopped 137, SetRunning 9 43] zeroState) > 0 \<and>
   \<not> Running (run_calls [SetRunning 7 42, SetStopped 137] zeroState) \<and>
   Pid (run_calls [SetRunning 7 42, SetStopped 137] zeroState) = 0"
  using State_invariant_positive_pid [of "[SetRunning 7 42, SetStopped 137, SetRunning 9 43]"]
    State_invariant_positive_pid [of "[SetRunning 7 42, SetStopped 137]"]
  by (simp add: run_calls_def setRunning_def setStopped_def zeroState_def)

text \<open>
  C2: \<^verbatim>\<open>State.String\<close> is \<^verbatim>\<open>"Up <duration>"\<close> for a running state that is not a ghost,
  \<^verbatim>\<open>"Ghost"\<close> for a running ghost, and \<^verbatim>\<open>"Exit <code>"\<close> with the stored exit code
  otherwise; after \<^verbatim>\<open>setStopped(137)\<close> it is \<^verbatim>\<open>"Exit 137"\<close>.
\<close>

theorem State_String_cases:
  "(Running s \<and> \<not> Ghost s \<longrightarrow>
      State_String HumanDuration now s = ''Up '' @ HumanDuration (Time_Sub now (StartedAt s))) \<and>
   (Running s \<and> Ghost s \<longrightarrow> State_String HumanDuration now s = ''Ghost'') \<and>
   (\<not> Running s \<longrightarrow> State_String HumanDuration now s = ''Exit '' @ fmt_d (ExitCode s)) \<and>
   State_String HumanDuration now (setStopped s 137) = ''Exit 137''"
  by (simp add: State_String_def setStopped_def fmt_d_def natToDec.simps digitChar_def)

theorem State_String_cases_witness:
  "Running (setRunning 100 zeroState 42) \<and> \<not> Ghost (setRunning 100 zeroState 42) \<and>
   State_String (\<lambda>d. fmt_d d @ ''ns'') 160 (setRunning 100 zeroState 42) = ''Up 60ns'' \<and>
   Running (setRunning 100 zeroState 42\<lparr>Ghost := True\<rparr>) \<and>
   Ghost (setRunning 100 zeroState 42\<lparr>Ghost := True\<rparr>) \<and>
   State_String (\<lambda>d. fmt_d d @ ''ns'') 160 (setRunning 100 zeroState 42\<lparr>Ghost := True\<rparr>) = ''Ghost'' \<and>
   \<not> Running (setStopped zeroState (- 1)) \<and>
   State_String (\<lambda>d. fmt_d d @ ''ns'') 160 (setStopped zeroState (- 1)) = ''Exit -1''"
  using State_String_cases [of "setRunning 100 zeroState 42" "\<lambda>d. fmt_d d @ ''ns''" 160]
    State_String_cases [of "setRunning 100 zeroState 42\<lparr>Ghost := True\<rparr>" "\<lambda>d. fmt_d d @ ''ns''" 160]
    State_String_cases [of "setStopped zeroState (- 1)" "\<lambda>d. fmt_d d @ ''ns''" 160]
  by (simp add: setRunning_def setStopped_def zeroState_def Time_Sub_def maxDuration_def
      minDuration_def fmt_d_def natToDec.simps digitChar_def)

text \<open>
  C3: \<^verbatim>\<open>setRunning(pid)\<close> sets \<^verbatim>\<open>Running\<close>, clears \<^verbatim>\<open>Ghost\<close> and \<^verbatim>\<open>ExitCode\<close>, stores the
  pid and the reading of the clock taken by the call. The function is total and returns
  only the state: it has no error result.
\<close>

theorem setRunning_effect:
  "Running (setRunning now s pid) = True \<and>
   Ghost (setRunning now s pid) = False \<and>
   ExitCode (setRunning now s pid) = 0 \<and>
   Pid (setRunning now s pid) = pid \<and>
   StartedAt (setRunning now s pid) = now"
  by (simp add: setRunning_def)

text \<open>
  C4: \<^verbatim>\<open>setStopped(exitCode)\<close> clears \<^verbatim>\<open>Running\<close>, zeroes the pid and stores the exit code;
  \<^verbatim>\<open>setRunning(42)\<close> followed by \<^verbatim>\<open>setStopped(0)\<close> gives a state that is not running, with
  pid 0 and exit code 0.
\<close>

theorem setStopped_effect:
  "Running (setStopped s exitCode) = False \<and>
   Pid (setStopped s exitCode) = 0 \<and>
   ExitCode (setStopped s exitCode) = exitCode \<and>
   Running (setStopped (setRunning now s 42) 0) = False \<and>
   Pid (setStopped (setRunning now s 42) 0) = 0 \<and>
   ExitCode (setStopped (setRunning now s 42) 0) = 0"
  by (simp add: setStopped_def)

text \<open>
  C9: \<^verbatim>\<open>setStopped(exitCode)\<close> changes \<^verbatim>\<open>Running\<close>, \<^verbatim>\<open>Pid\<close> and \<^verbatim>\<open>ExitCode\<close> only: \<^verbatim>\<open>Ghost\<close>,
  \<^verbatim>\<open>StartedAt\<close> and the mutex are as before. A ghost flag set on a running state is still
  set after \<^verbatim>\<open>setStopped\<close>, and is cleared by the next \<^verbatim>\<open>setRunning\<close>.
\<close>

theorem setStopped_frame:
  "Ghost (setStopped s exitCode) = Ghost s \<and>
   StartedAt (setStopped s exitCode) = StartedAt s \<and>
   Mutex (setStopped s exitCode) = Mutex s \<and>
   setStopped s exitCode =
     s\<lparr>Running := Running (setStopped s exitCode), Pid := Pid (setStopped s exitCode),
       ExitCode := ExitCode (setStopped s exitCode)\<rparr> \<and>
   Ghost (setStopped (s\<lparr>Running := True, Ghost := True\<rparr>) exitCode) = True \<and>
   Ghost (setRunning now (setStopped (s\<lparr>Running := True, Ghost := True\<rparr>) exitCode) pid) = False"
  by (simp add: setStopped_def setRunning_def)

section \<open>Properties of the filesystem changes\<close>

text \<open>
  C10: the kinds are \<^verbatim>\<open>ChangeModify = 0\<close>, \<^verbatim>\<open>ChangeAdd = 1\<close>, \<^verbatim>\<open>ChangeDelete = 2\<close>, and
  \<^verbatim>\<open>Change.String\<close> is the letter \<^verbatim>\<open>C\<close>, \<^verbatim>\<open>A\<close> or \<^verbatim>\<open>D\<close> of the kind, a space and the path;
  for any other kind the letter is missing and the result is the space and the path.
\<close>

theorem Change_String_kinds:
  "ChangeModify = 0 \<and> ChangeAdd = 1 \<and> ChangeDelete = 2 \<and>
   (Kind c = ChangeModify \<longrightarrow> Change_String c = ''C'' @ '' '' @ Path c) \<and>
   (Kind c = ChangeAdd \<longrightarrow> Change_String c = ''A'' @ '' '' @ Path c) \<and>
   (Kind c = ChangeDelete \<longrightarrow> Change_String c = ''D'' @ '' '' @ Path c) \<and>
   (Kind c \<noteq> ChangeModify \<and> Kind c \<noteq> ChangeAdd \<and> Kind c \<noteq> ChangeDelete \<longrightarrow>
      Change_String c = '' '' @ Path c)"
  by (simp add: Change_String_def ChangeModify_def ChangeAdd_def ChangeDelete_def)

theorem Change_String_kinds_witness:
  "Kind \<lparr>Path = ''/etc/passwd'', Kind = 0\<rparr> = ChangeModify \<and>
   Change_String \<lparr>Path = ''/etc/passwd'', Kind = 0\<rparr> = ''C /etc/passwd'' \<and>
   Kind \<lparr>Path = ''/tmp/new'', Kind = 1\<rparr> = ChangeAdd \<and>
   Change_String \<lparr>Path = ''/tmp/new'', Kind = 1\<rparr> = ''A /tmp/new'' \<and>
   Kind \<lparr>Path = ''/tmp/old'', Kind = 2\<rparr> = ChangeDelete \<and>
   Change_String \<lparr>Path = ''/tmp/old'', Kind = 2\<rparr> = ''D /tmp/old'' \<and>
   Kind \<lparr>Path = ''/dev'', Kind = 7\<rparr> \<noteq> ChangeModify \<and>
   Kind \<lparr>Path = ''/dev'', Kind = 7\<rparr> \<noteq> ChangeAdd \<and>
   Kind \<lparr>Path = ''/dev'', Kind = 7\<rparr> \<noteq> ChangeDelete \<and>
   Change_String \<lparr>Path = ''/dev'', Kind = 7\<rparr> = '' /dev''"
proof -
  have k0: "Kind \<lparr>Path = ''/etc/passwd'', Kind = 0\<rparr> = ChangeModify"
    by (simp add: ChangeModify_def)
  have k1: "Kind \<lparr>Path = ''/tmp/new'', Kind = 1\<rparr> = ChangeAdd"
    by (simp add: ChangeAdd_def)
  have k2: "Kind \<lparr>Path = ''/tmp/old'', Kind = 2\<rparr> = ChangeDelete"
    by (simp add: ChangeDelete_def)
  have k7: "Kind \<lparr>Path = ''/dev'', Kind = 7\<rparr> \<noteq> ChangeModify \<and>
      Kind \<lparr>Path = ''/dev'', Kind = 7\<rparr> \<noteq> ChangeAdd \<and>
      Kind \<lparr>Path = ''/dev'', Kind = 7\<rparr> \<noteq> ChangeDelete"
    by (simp add: ChangeModify_def ChangeAdd_def ChangeDelete_def)
  from k0 Change_String_kinds [of "\<lparr>Path = ''/etc/passwd'', Kind = 0\<rparr>"]
  have s0: "Change_String \<lparr>Path = ''/etc/passwd'', Kind = 0\<rparr> = ''C /etc/passwd''"
    by simp
  from k1 Change_String_kinds [of "\<lparr>Path = ''/tmp/new'', Kind = 1\<rparr>"]
  have s1: "Change_String \<lparr>Path = ''/tmp/new'', Kind = 1\<rparr> = ''A /tmp/new''"
    by simp
  from k2 Change_String_kinds [of "\<lparr>Path = ''/tmp/old'', Kind = 2\<rparr>"]
  have s2: "Change_String \<lparr>Path = ''/tmp/old'', Kind = 2\<rparr> = ''D /tmp/old''"
    by simp
  from k7 Change_String_kinds [of "\<lparr>Path = ''/dev'', Kind = 7\<rparr>"]
  have s7: "Change_String \<lparr>Path = ''/dev'', Kind = 7\<rparr> = '' /dev''"
    by simp
  from k0 k1 k2 k7 s0 s1 s2 s7 show ?thesis
    by blast
qed

section \<open>Properties of the request layer\<close>

lemma TestGetBoolParam_passes: "TestGetBoolParam"
  by (simp add: TestGetBoolParam_def getBoolParam_def)

lemma TestJsonContentType_passes: "TestJsonContentType"
  by (simp add: TestJsonContentType_def matchesContentType_def)

text \<open>
  C5: \<^verbatim>\<open>getBoolParam\<close> returns true and no error for \<^verbatim>\<open>"1"\<close>, \<^verbatim>\<open>"true"\<close>, \<^verbatim>\<open>"True"\<close>, false
  and no error for \<^verbatim>\<open>""\<close>, \<^verbatim>\<open>"0"\<close>, \<^verbatim>\<open>"false"\<close>, and for every other string an error
  together with false.
\<close>

theorem getBoolParam_grammar:
  "(v = ''1'' \<or> v = ''true'' \<or> v = ''True'' \<longrightarrow> getBoolParam v = (True, None)) \<and>
   (v = '''' \<or> v = ''0'' \<or> v = ''false'' \<longrightarrow> getBoolParam v = (False, None)) \<and>
   (v \<noteq> ''1'' \<and> v \<noteq> ''true'' \<and> v \<noteq> ''True'' \<and> v \<noteq> '''' \<and> v \<noteq> ''0'' \<and> v \<noteq> ''false'' \<longrightarrow>
      fst (getBoolParam v) = False \<and> snd (getBoolParam v) \<noteq> None)"
  by (auto simp add: getBoolParam_def)

theorem getBoolParam_grammar_witness:
  "getBoolParam ''True'' = (True, None) \<and> getBoolParam ''0'' = (False, None) \<and>
   ''faux'' \<noteq> ''1'' \<and> ''faux'' \<noteq> ''true'' \<and> ''faux'' \<noteq> ''True'' \<and> ''faux'' \<noteq> '''' \<and>
   ''faux'' \<noteq> ''0'' \<and> ''faux'' \<noteq> ''false'' \<and>
   fst (getBoolParam ''faux'') = False \<and> snd (getBoolParam ''faux'') \<noteq> None"
  using getBoolParam_grammar [of "''True''"] getBoolParam_grammar [of "''0''"]
    getBoolParam_grammar [of "''faux''"]
  by simp

text \<open>
  C7: \<^verbatim>\<open>matchesContentType\<close> accepts exactly the expected type, alone or followed by a
  \<^verbatim>\<open>; charset=...\<close> suffix; it accepts \<^verbatim>\<open>application/json\<close> and
  \<^verbatim>\<open>application/json; charset=utf-8\<close> for \<^verbatim>\<open>application/json\<close> and rejects
  \<^verbatim>\<open>dockerapplication/json\<close>.
\<close>

theorem matchesContentType_charset:
  "matchesContentType contentType expectedType =
     (contentType = expectedType \<or> (\<exists>cs. contentType = expectedType @ ''; charset='' @ cs)) \<and>
   matchesContentType ''application/json'' ''application/json'' \<and>
   matchesContentType ''application/json; charset=utf-8'' ''application/json'' \<and>
   \<not> matchesContentType ''dockerapplication/json'' ''application/json''"
  by (auto simp add: matchesContentType_def prefix_def)

text \<open>
  C8: with CORS enabled, every response of the router carries the three
  \<^verbatim>\<open>Access-Control-Allow-*\<close> headers with their documented values, and an \<^verbatim>\<open>OPTIONS\<close>
  request to any path is answered 200 with an empty body and leaves the server's state
  as it was.
\<close>

theorem ServeHTTP_cors:
  "Header (fst (ServeHTTP True routes srv r)) ''Access-Control-Allow-Origin'' = Some ''*'' \<and>
   Header (fst (ServeHTTP True routes srv r)) ''Access-Control-Allow-Methods'' =
     Some ''GET, POST, DELETE, PUT, OPTIONS'' \<and>
   Header (fst (ServeHTTP True routes srv r)) ''Access-Control-Allow-Headers'' =
     Some ''Origin, X-Requested-With, Content-Type, Accept'' \<and>
   (Method r = ''OPTIONS'' \<longrightarrow>
      StatusCode (fst (ServeHTTP True routes srv r)) = 200 \<and>
      Body (fst (ServeHTTP True routes srv r)) = '''' \<and>
      snd (ServeHTTP True routes srv r) = srv)"
  by (simp add: ServeHTTP_def writeCorsHeaders_def split: option.split prod.split)

theorem ServeHTTP_cors_witness:
  "Method \<lparr>Method = ''OPTIONS'', URLPath = ''/''\<rparr> = ''OPTIONS'' \<and>
   StatusCode (fst (ServeHTTP True (\<lambda>m p. None) (0::nat) \<lparr>Method = ''OPTIONS'', URLPath = ''/''\<rparr>)) = 200 \<and>
   Body (fst (ServeHTTP True (\<lambda>m p. None) (0::nat) \<lparr>Method = ''OPTIONS'', URLPath = ''/''\<rparr>)) = '''' \<and>
   snd (ServeHTTP True (\<lambda>m p. None) (0::nat) \<lparr>Method = ''OPTIONS'', URLPath = ''/''\<rparr>) = 0 \<and>
   Header (fst (ServeHTTP True (\<lambda>m p. None) (0::nat) \<lparr>Method = ''OPTIONS'', URLPath = ''/''\<rparr>))
     ''Access-Control-Allow-Origin'' = Some ''*''"
  using ServeHTTP_cors [of "\<lambda>m p. None" "0::nat" "\<lparr>Method = ''OPTIONS'', URLPath = ''/''\<rparr>"]
  by simp

section \<open>Properties of the event bus\<close>







lemma TestGetEvents_passes: "1 \<le> now1 \<Longrightarrow> 1 \<le> now2 \<Longrightarrow> TestGetEvents now1 now2"
  by (simp add: TestGetEvents_def LogEvent_def streamStart_def replay_def newEvent_def Let_def)




end
